theory Spec2Isabelle
  imports Main
begin

section \<open>Python strings\<close>

text \<open>
  A Python \<open>str\<close> is modelled as a \<open>string\<close>: a list of 8-bit characters, read as the
  code points 0 to 255.  The library functions the program calls on strings are written
  out on that range.
\<close>

abbreviation DQUOTE :: char where "DQUOTE \<equiv> CHR 0x22"
abbreviation BSLASH :: char where "BSLASH \<equiv> CHR 0x5C"
abbreviation NEWLINE :: char where "NEWLINE \<equiv> CHR 0x0A"
abbreviation CRETURN :: char where "CRETURN \<equiv> CHR 0x0D"

text \<open>\<open>str.isspace\<close> on one character: the white space of \<open>strip\<close> and \<open>split\<close>.\<close>

definition isspace :: "char \<Rightarrow> bool" where
  "isspace c \<longleftrightarrow>
     (let n = (of_char c :: nat)
      in (9 \<le> n \<and> n \<le> 13) \<or> (28 \<le> n \<and> n \<le> 32) \<or> n = 133 \<or> n = 160)"

definition strip :: "string \<Rightarrow> string" where
  "strip s = rev (dropWhile isspace (rev (dropWhile isspace s)))"

text \<open>\<open>str.lower\<close>: the capital letters of ASCII and of Latin-1 move down by 32.\<close>

definition lower_char :: "char \<Rightarrow> char" where
  "lower_char c =
     (let n = (of_char c :: nat)
      in if (65 \<le> n \<and> n \<le> 90) \<or> (192 \<le> n \<and> n \<le> 222 \<and> n \<noteq> 215)
         then char_of (n + 32) else c)"

definition lower :: "string \<Rightarrow> string" where
  "lower s = map lower_char s"

text \<open>\<open>str.split()\<close> with no argument: the maximal runs of characters that are not white space.\<close>

fun split_from :: "string \<Rightarrow> string \<Rightarrow> string list" where
  "split_from tok [] = (if tok = [] then [] else [tok])"
| "split_from tok (c # cs) =
     (if isspace c then (if tok = [] then split_from [] cs else tok # split_from [] cs)
      else split_from (tok @ [c]) cs)"

definition split :: "string \<Rightarrow> string list" where
  "split s = split_from [] s"

text \<open>\<open>" ".join(xs)\<close>.\<close>

fun join_space :: "string list \<Rightarrow> string" where
  "join_space [] = []"
| "join_space [x] = x"
| "join_space (x # y # ys) = x @ '' '' @ join_space (y # ys)"

text \<open>
  Iterating over a file opened in text mode: the lines of the text, each with its line end,
  where \<open>\r\n\<close> and a lone \<open>\r\<close> are read as \<open>\n\<close>; a last line without a line end
  is a line too.
\<close>

fun lines_from :: "string \<Rightarrow> string \<Rightarrow> string list" where
  "lines_from cur [] = (if cur = [] then [] else [cur])"
| "lines_from cur [c] =
     (if c = NEWLINE \<or> c = CRETURN then [cur @ [NEWLINE]] else [cur @ [c]])"
| "lines_from cur (c # d # cs) =
     (if c = NEWLINE then (cur @ [NEWLINE]) # lines_from [] (d # cs)
      else if c = CRETURN then
        (if d = NEWLINE then (cur @ [NEWLINE]) # lines_from [] cs
         else (cur @ [NEWLINE]) # lines_from [] (d # cs))
      else lines_from (cur @ [c]) (d # cs))"

definition file_lines :: "string \<Rightarrow> string list" where
  "file_lines text = lines_from [] text"

text \<open>\<open>str(n)\<close> of an integer.\<close>

definition digit_char :: "nat \<Rightarrow> char" where
  "digit_char d = char_of (48 + d)"

fun nat_str :: "nat \<Rightarrow> string" where
  "nat_str n = (if n < 10 then [digit_char n] else nat_str (n div 10) @ [digit_char (n mod 10)])"

declare nat_str.simps [simp del]

definition int_str :: "int \<Rightarrow> string" where
  "int_str i = (if i < 0 then CHR ''-'' # nat_str (nat (- i)) else nat_str (nat i))"

fun join :: "string \<Rightarrow> string list \<Rightarrow> string" where
  "join sep [] = []"
| "join sep [x] = x"
| "join sep (x # y # ys) = x @ sep @ join sep (y # ys)"

section \<open>The json module\<close>

text \<open>
  What \<open>json.loads\<close> returns and \<open>json.dumps\<close> takes.  A \<open>dict\<close> keeps its keys in
  insertion order, so it is an association list without repeated keys.  A float is carried
  by the text it was read from.
\<close>

datatype json =
    JNull
  | JBool bool
  | JInt int
  | JFloat string
  | JString string
  | JArray "json list"
  | JObject "(string \<times> json) list"

text \<open>\<open>d[k] = v\<close>: an existing key keeps its place, a new key goes last.\<close>

fun dict_set :: "string \<Rightarrow> json \<Rightarrow> (string \<times> json) list \<Rightarrow> (string \<times> json) list" where
  "dict_set k v [] = [(k, v)]"
| "dict_set k v ((k', v') # d) = (if k = k' then (k, v) # d else (k', v') # dict_set k v d)"

subsection \<open>json.dumps\<close>

definition hex_char :: "nat \<Rightarrow> char" where
  "hex_char d = (if d < 10 then char_of (48 + d) else char_of (87 + d))"

text \<open>
  \<open>ensure_ascii\<close> is on: the quote, the backslash and every character outside the
  printable ASCII range is escaped.
\<close>

definition escape_char :: "char \<Rightarrow> string" where
  "escape_char c =
     (let n = (of_char c :: nat)
      in if c = DQUOTE then [BSLASH, DQUOTE]
         else if c = BSLASH then [BSLASH, BSLASH]
         else if n = 10 then [BSLASH, CHR ''n'']
         else if n = 13 then [BSLASH, CHR ''r'']
         else if n = 9 then [BSLASH, CHR ''t'']
         else if n = 8 then [BSLASH, CHR ''b'']
         else if n = 12 then [BSLASH, CHR ''f'']
         else if 32 \<le> n \<and> n \<le> 126 then [c]
         else [BSLASH, CHR ''u'', CHR ''0'', CHR ''0'', hex_char (n div 16), hex_char (n mod 16)])"

definition encode_string :: "string \<Rightarrow> string" where
  "encode_string s = DQUOTE # concat (map escape_char s) @ [DQUOTE]"

definition newline_indent :: "nat \<Rightarrow> nat \<Rightarrow> string" where
  "newline_indent k level = NEWLINE # replicate (k * level) (CHR '' '')"

text \<open>
  \<open>encode indent level v\<close>: the text of \<open>v\<close>; \<open>indent = None\<close> is the compact form
  with the separators \<open>", "\<close> and \<open>": "\<close>, \<open>indent = Some k\<close> the pretty-printed one.
\<close>

fun encode :: "nat option \<Rightarrow> nat \<Rightarrow> json \<Rightarrow> string" where
  "encode indent level JNull = ''null''"
| "encode indent level (JBool b) = (if b then ''true'' else ''false'')"
| "encode indent level (JInt i) = int_str i"
| "encode indent level (JFloat s) = s"
| "encode indent level (JString s) = encode_string s"
| "encode indent level (JArray xs) =
     (if xs = [] then ''[]''
      else case indent of
        None \<Rightarrow> ''['' @ join '', '' (map (encode indent level) xs) @ '']''
      | Some k \<Rightarrow>
          ''['' @ newline_indent k (Suc level)
          @ join ('','' @ newline_indent k (Suc level)) (map (encode indent (Suc level)) xs)
          @ newline_indent k level @ '']'')"
| "encode indent level (JObject kvs) =
     (if kvs = [] then ''{}''
      else case indent of
        None \<Rightarrow>
          ''{'' @ join '', ''
             (map (\<lambda>kv. encode_string (fst kv) @ '': '' @ encode indent level (snd kv)) kvs)
          @ ''}''
      | Some k \<Rightarrow>
          ''{'' @ newline_indent k (Suc level)
          @ join ('','' @ newline_indent k (Suc level))
             (map (\<lambda>kv. encode_string (fst kv) @ '': '' @ encode indent (Suc level) (snd kv)) kvs)
          @ newline_indent k level @ ''}'')"

definition json_dumps :: "json \<Rightarrow> string" where
  "json_dumps v = encode None 0 v"

definition json_dumps_indent :: "nat \<Rightarrow> json \<Rightarrow> string" where
  "json_dumps_indent k v = encode (Some k) 0 v"

subsection \<open>json.loads\<close>

definition json_ws :: "char \<Rightarrow> bool" where
  "json_ws c \<longleftrightarrow> c = CHR '' '' \<or> c = CHR 0x09 \<or> c = NEWLINE \<or> c = CRETURN"

definition skip_ws :: "string \<Rightarrow> string" where
  "skip_ws cs = dropWhile json_ws cs"

definition is_digit :: "char \<Rightarrow> bool" where
  "is_digit c \<longleftrightarrow> (let n = (of_char c :: nat) in 48 \<le> n \<and> n \<le> 57)"

definition digits_val :: "string \<Rightarrow> nat" where
  "digits_val ds = foldl (\<lambda>a c. 10 * a + (of_char c - 48)) 0 ds"

definition hex_val :: "char \<Rightarrow> nat option" where
  "hex_val c =
     (let n = (of_char c :: nat)
      in if 48 \<le> n \<and> n \<le> 57 then Some (n - 48)
         else if 97 \<le> n \<and> n \<le> 102 then Some (n - 87)
         else if 65 \<le> n \<and> n \<le> 70 then Some (n - 55)
         else None)"

definition hex4 :: "char \<Rightarrow> char \<Rightarrow> char \<Rightarrow> char \<Rightarrow> nat option" where
  "hex4 a b c d =
     (case (hex_val a, hex_val b, hex_val c, hex_val d) of
        (Some x, Some y, Some z, Some w) \<Rightarrow> Some (((x * 16 + y) * 16 + z) * 16 + w)
      | _ \<Rightarrow> None)"

text \<open>The character a backslash escape other than \<open>\u\<close> stands for.\<close>

definition unescape :: "char \<Rightarrow> char option" where
  "unescape e =
     (if e = DQUOTE then Some DQUOTE
      else if e = BSLASH then Some BSLASH
      else if e = CHR ''/'' then Some (CHR ''/'')
      else if e = CHR ''b'' then Some (CHR 0x08)
      else if e = CHR ''f'' then Some (CHR 0x0C)
      else if e = CHR ''n'' then Some NEWLINE
      else if e = CHR ''r'' then Some CRETURN
      else if e = CHR ''t'' then Some (CHR 0x09)
      else None)"

text \<open>
  \<open>scanstring\<close> reads a string literal after its opening quote and returns the string and
  the rest of the text.  A raw control character ends the parse.  A \<open>\u\<close> escape of a
  code point above 255 has no character in this model of \<open>str\<close>: such a text is not
  read.
\<close>

fun scanstring :: "string \<Rightarrow> (string \<times> string) option" where
  "scanstring [] = None"
| "scanstring (c # cs) =
     (if c = DQUOTE then Some ([], cs)
      else if c = BSLASH then
        (case cs of
           [] \<Rightarrow> None
         | e # cs' \<Rightarrow>
             if e = CHR ''u'' then
               (case cs' of
                  a # b # x # d # rest \<Rightarrow>
                    (case hex4 a b x d of
                       None \<Rightarrow> None
                     | Some n \<Rightarrow>
                         if n < 256 then map_option (apfst ((#) (char_of n))) (scanstring rest)
                         else None)
                | _ \<Rightarrow> None)
             else
               (case unescape e of
                  None \<Rightarrow> None
                | Some u \<Rightarrow> map_option (apfst ((#) u)) (scanstring cs')))
      else if (of_char c :: nat) < 32 then None
      else map_option (apfst ((#) c)) (scanstring cs))"

text \<open>
  A number: an optional minus, an integer part without a leading zero, an optional
  fraction and an optional exponent, as long a match as there is.
\<close>

definition match_exponent :: "string \<Rightarrow> string \<times> string" where
  "match_exponent cs =
     (case cs of
        [] \<Rightarrow> ([], cs)
      | e # r \<Rightarrow>
          if e = CHR ''e'' \<or> e = CHR ''E'' then
            (let sg = (case r of [] \<Rightarrow> [] | s # _ \<Rightarrow> if s = CHR ''+'' \<or> s = CHR ''-'' then [s] else []);
                 r1 = drop (length sg) r
             in if takeWhile is_digit r1 = [] then ([], cs)
                else (e # sg @ takeWhile is_digit r1, dropWhile is_digit r1))
          else ([], cs))"

definition match_fraction :: "string \<Rightarrow> string \<times> string" where
  "match_fraction cs =
     (case cs of
        [] \<Rightarrow> ([], cs)
      | p # r \<Rightarrow>
          if p = CHR ''.'' \<and> takeWhile is_digit r \<noteq> [] then
            (p # takeWhile is_digit r, dropWhile is_digit r)
          else ([], cs))"

text \<open>The integer part, the fraction, the exponent and the rest, after the sign.\<close>

definition match_unsigned :: "string \<Rightarrow> (string \<times> string \<times> string \<times> string) option" where
  "match_unsigned cs =
     (case cs of
        [] \<Rightarrow> None
      | c # r \<Rightarrow>
          if \<not> is_digit c then None
          else
            (let ip = (if c = CHR ''0'' then [c] else takeWhile is_digit cs);
                 fr = match_fraction (drop (length ip) cs);
                 ex = match_exponent (snd fr)
             in Some (ip, fst fr, fst ex, snd ex)))"

text \<open>An integer when there is neither fraction nor exponent, else a float.\<close>

definition number_value :: "bool \<Rightarrow> string \<Rightarrow> string \<Rightarrow> string \<Rightarrow> json" where
  "number_value negative ip frac ex =
     (if frac = [] \<and> ex = []
      then JInt (if negative then - int (digits_val ip) else int (digits_val ip))
      else JFloat ((if negative then ''-'' else []) @ ip @ frac @ ex))"

definition match_number :: "string \<Rightarrow> (json \<times> string) option" where
  "match_number cs =
     (case cs of
        [] \<Rightarrow> None
      | s # r \<Rightarrow>
          if s = CHR ''-'' then
            map_option (\<lambda>(ip, frac, ex, rest). (number_value True ip frac ex, rest))
              (match_unsigned r)
          else
            map_option (\<lambda>(ip, frac, ex, rest). (number_value False ip frac ex, rest))
              (match_unsigned cs))"

text \<open>
  \<open>scan_once\<close> reads one value at the head of the text.  The first argument bounds the
  number of nested calls; \<open>json_loads\<close> starts it high enough for the whole text.
\<close>

fun scan_once :: "nat \<Rightarrow> string \<Rightarrow> (json \<times> string) option"
  and scan_array :: "nat \<Rightarrow> json list \<Rightarrow> string \<Rightarrow> (json \<times> string) option"
  and scan_object :: "nat \<Rightarrow> (string \<times> json) list \<Rightarrow> string \<Rightarrow> (json \<times> string) option"
where
  "scan_once 0 cs = None"
| "scan_once (Suc n) [] = None"
| "scan_once (Suc n) (c # cs) =
     (if c = DQUOTE then map_option (apfst JString) (scanstring cs)
      else if c = CHR ''{'' then
        (case skip_ws cs of
           [] \<Rightarrow> None
         | d # r \<Rightarrow> if d = CHR ''}'' then Some (JObject [], r) else scan_object n [] (d # r))
      else if c = CHR ''['' then
        (case skip_ws cs of
           [] \<Rightarrow> None
         | d # r \<Rightarrow> if d = CHR '']'' then Some (JArray [], r) else scan_array n [] (d # r))
      else if c = CHR ''n'' \<and> take 3 cs = ''ull'' then Some (JNull, drop 3 cs)
      else if c = CHR ''t'' \<and> take 3 cs = ''rue'' then Some (JBool True, drop 3 cs)
      else if c = CHR ''f'' \<and> take 4 cs = ''alse'' then Some (JBool False, drop 4 cs)
      else if c = CHR ''N'' \<and> take 2 cs = ''aN'' then Some (JFloat ''NaN'', drop 2 cs)
      else if c = CHR ''I'' \<and> take 7 cs = ''nfinity'' then Some (JFloat ''Infinity'', drop 7 cs)
      else if c = CHR ''-'' \<and> take 8 cs = ''Infinity'' then Some (JFloat ''-Infinity'', drop 8 cs)
      else match_number (c # cs))"
| "scan_array 0 acc cs = None"
| "scan_array (Suc n) acc cs =
     (case scan_once n cs of
        None \<Rightarrow> None
      | Some (v, r) \<Rightarrow>
          (case skip_ws r of
             [] \<Rightarrow> None
           | d # r' \<Rightarrow>
               if d = CHR '']'' then Some (JArray (acc @ [v]), r')
               else if d = CHR '','' then scan_array n (acc @ [v]) (skip_ws r')
               else None))"
| "scan_object 0 acc cs = None"
| "scan_object (Suc n) acc cs =
     (case cs of
        [] \<Rightarrow> None
      | q # r \<Rightarrow>
          if q \<noteq> DQUOTE then None
          else
            (case scanstring r of
               None \<Rightarrow> None
             | Some (key, r1) \<Rightarrow>
                 (case skip_ws r1 of
                    [] \<Rightarrow> None
                  | col # r2 \<Rightarrow>
                      if col \<noteq> CHR '':'' then None
                      else
                        (case scan_once n (skip_ws r2) of
                           None \<Rightarrow> None
                         | Some (v, r3) \<Rightarrow>
                             (case skip_ws r3 of
                                [] \<Rightarrow> None
                              | d # r4 \<Rightarrow>
                                  if d = CHR ''}'' then Some (JObject (dict_set key v acc), r4)
                                  else if d = CHR '','' then
                                    scan_object n (dict_set key v acc) (skip_ws r4)
                                  else None)))))"

text \<open>
  \<open>json.loads\<close>: one value between optional white space and nothing after it;
  \<open>None\<close> is \<open>JSONDecodeError\<close>.
\<close>

definition json_loads :: "string \<Rightarrow> json option" where
  "json_loads s =
     (case scan_once (2 * length s + 2) (skip_ws s) of
        None \<Rightarrow> None
      | Some (v, rest) \<Rightarrow> if skip_ws rest = [] then Some v else None)"

section \<open>Python values and lists\<close>

text \<open>The exceptions the program can meet.\<close>

datatype error =
    FileNotFoundError
  | PermissionError
  | JSONDecodeError
  | ValueError string
  | TypeError
  | KeyError string
  | AttributeError
  | IndexError
  | EOFError

text \<open>A computation that returns, raises, or leaves the process through \<open>sys.exit\<close>.\<close>

datatype 'a result = Returned 'a | Raised error | SysExit int

text \<open>\<open>xs[a:]\<close>: a negative start counts from the end, and both ends are clipped.\<close>

definition slice_from :: "int \<Rightarrow> 'a list \<Rightarrow> 'a list" where
  "slice_from a xs = (if a < 0 then drop (nat (int (length xs) + a)) xs else drop (nat a) xs)"

text \<open>The truth value of an object, as \<open>if x\<close> and \<open>not x\<close> and \<open>or\<close> take it.\<close>

fun truthy :: "json \<Rightarrow> bool" where
  "truthy JNull = False"
| "truthy (JBool b) = b"
| "truthy (JInt i) = (i \<noteq> 0)"
| "truthy (JFloat s) =
     (list_ex (\<lambda>c. is_digit c \<and> c \<noteq> CHR ''0'')
        (takeWhile (\<lambda>c. c \<noteq> CHR ''e'' \<and> c \<noteq> CHR ''E'') s)
      \<or> s = ''NaN'' \<or> s = ''Infinity'' \<or> s = ''-Infinity'')"
| "truthy (JString s) = (s \<noteq> [])"
| "truthy (JArray xs) = (xs \<noteq> [])"
| "truthy (JObject kvs) = (kvs \<noteq> [])"

fun starts_with :: "string \<Rightarrow> string \<Rightarrow> bool" where
  "starts_with [] s = True"
| "starts_with (p # ps) [] = False"
| "starts_with (p # ps) (c # cs) = (p = c \<and> starts_with ps cs)"

fun substring_of :: "string \<Rightarrow> string \<Rightarrow> bool" where
  "substring_of p [] = (p = [])"
| "substring_of p (c # cs) = (starts_with p (c # cs) \<or> substring_of p cs)"

text \<open>\<open>key in obj\<close> for a string \<open>key\<close>.\<close>

fun py_contains :: "string \<Rightarrow> json \<Rightarrow> bool result" where
  "py_contains key (JObject kvs) = Returned (map_of kvs key \<noteq> None)"
| "py_contains key (JArray xs) = Returned (List.member xs (JString key))"
| "py_contains key (JString s) = Returned (substring_of key s)"
| "py_contains key v = Raised TypeError"

text \<open>\<open>obj[key]\<close> for a string \<open>key\<close>.\<close>

fun py_getitem :: "json \<Rightarrow> string \<Rightarrow> json result" where
  "py_getitem (JObject kvs) key =
     (case map_of kvs key of None \<Rightarrow> Raised (KeyError key) | Some v \<Rightarrow> Returned v)"
| "py_getitem v key = Raised TypeError"

text \<open>\<open>int(s)\<close> of a token without white space: a sign, then digits that single
  underscores may separate.  \<open>None\<close> is \<open>ValueError\<close>.\<close>

fun digit_groups :: "string \<Rightarrow> bool" where
  "digit_groups [] = False"
| "digit_groups [c] = is_digit c"
| "digit_groups (c # d # cs) =
     (is_digit c \<and> (if d = CHR ''_'' then digit_groups cs else digit_groups (d # cs)))"

definition py_int :: "string \<Rightarrow> int option" where
  "py_int s =
     (let neg = (case s of [] \<Rightarrow> False | c # _ \<Rightarrow> c = CHR ''-'');
          signed = (case s of [] \<Rightarrow> False | c # _ \<Rightarrow> c = CHR ''-'' \<or> c = CHR ''+'');
          body = (if signed then tl s else s)
      in if digit_groups body
         then Some (if neg then - int (digits_val (filter is_digit body))
                    else int (digits_val (filter is_digit body)))
         else None)"

section \<open>The file system\<close>

text \<open>
  Files are texts under their paths.  Opening a path of \<open>write_protected\<close> for writing
  fails; every other write goes through.
\<close>

type_synonym path = string

record disk =
  files :: "path \<rightharpoonup> string"
  write_protected :: "path set"

definition path_join :: "path \<Rightarrow> path \<Rightarrow> path" where
  "path_join dir name =
     (if dir = [] then name
      else if last dir = CHR ''/'' then dir @ name
      else dir @ ''/'' @ name)"

text \<open>\<open>not os.path.exists(p) or os.path.getsize(p) == 0\<close>.\<close>

definition missing_or_empty :: "disk \<Rightarrow> path \<Rightarrow> bool" where
  "missing_or_empty d p = (case files d p of None \<Rightarrow> True | Some text \<Rightarrow> text = [])"

section \<open>electron.py: constants and console\<close>

definition API_KEY_NAME :: string where
  "API_KEY_NAME = ''API_KEY''"

definition BASE_URL :: string where
  "BASE_URL = ''https://api.aimlapi.com/v1''"

definition INTERACTION_HISTORY_LIMIT :: int where
  "INTERACTION_HISTORY_LIMIT = 10"

definition SETTINGS_FILE :: path where
  "SETTINGS_FILE = ''settings.json''"

definition HISTORY_FILE :: path where
  "HISTORY_FILE = ''history.json''"

definition REQUIRED_KEYS :: "string list" where
  "REQUIRED_KEYS = [''model'', ''api_key'', ''system_message'', ''assistant_name'', ''user_name'']"

definition DEFAULT_SETTINGS :: json where
  "DEFAULT_SETTINGS = JObject
     [(''model'', JString ''gpt-4o-mini''),
      (''api_key'', JString []),
      (''system_message'', JString
         ''You are {assistant_name}, a command line AI assistant for {user_name} who knows everything.''),
      (''assistant_name'', JString ''Electron''),
      (''user_name'', JString ''User'')]"

definition EXIT_COMMANDS :: "string list" where
  "EXIT_COMMANDS =
     [''q'', ''quit'', ''exit'', ''bye'', ''close'', ''stop'', ''end'', ''terminate'', ''leave'']"

definition CONFIRMATION_COMMANDS :: "string list" where
  "CONFIRMATION_COMMANDS = [''yes'', ''y'', ''yeah'', ''yep'', ''sure'', ''ok'', ''okay'', ''fine'']"

definition HELP_MESSAGE :: string where
  "HELP_MESSAGE = ''I am here to assist you with anything. ''"

text \<open>
  What the console is given.  The pieces of an f-string are kept apart: literal text, an
  object that the f-string formats, an exception that it formats.  Each \<open>CONSOLE.print\<close>
  is one item, plain or rendered as Markdown.
\<close>

datatype fragment = Lit string | Val json | Err error

datatype printed = Plain "fragment list" | Markdown "fragment list"

definition msg ::
  "fragment list \<Rightarrow> bool \<Rightarrow> bool \<Rightarrow> string option \<Rightarrow> string \<Rightarrow> string \<Rightarrow> printed list" where
  "msg content markdown bold color begin_text end_text =
     (let c1 = (if bold then [Lit ''[bold]''] @ content @ [Lit ''[/bold]''] else content);
          c2 = (case color of
                  None \<Rightarrow> c1
                | Some col \<Rightarrow>
                    if col = [] then c1
                    else [Lit (''['' @ col @ '']'')] @ c1 @ [Lit (''[/'' @ col @ '']'')])
      in [Plain [Lit begin_text], (if markdown then Markdown c2 else Plain c2), Plain [Lit end_text]])"

text \<open>The defaults of \<open>msg\<close>: \<open>begin = "\n"\<close> and \<open>end = "\n"\<close>.\<close>

abbreviation NL :: string where "NL \<equiv> [NEWLINE]"

section \<open>Settings store\<close>

text \<open>
  \<open>write_default_config\<close>: the defaults are written only where no file or an empty file
  is; a write that fails is logged and nothing else happens.
\<close>

definition write_default_config :: "disk \<Rightarrow> path \<Rightarrow> disk" where
  "write_default_config d p =
     (if missing_or_empty d p then
        (if p \<in> write_protected d then d
         else d\<lparr>files := (files d)(p \<mapsto> json_dumps_indent 4 DEFAULT_SETTINGS)\<rparr>)
      else d)"

definition missing_key_message :: "string \<Rightarrow> string" where
  "missing_key_message key =
     ''Missing required key: '' @ [CHR 0x27] @ key @ [CHR 0x27] @ '' in settings.''"

text \<open>The loop over \<open>REQUIRED_KEYS\<close>: the first key that is not in the document raises.\<close>

fun check_required :: "json \<Rightarrow> string list \<Rightarrow> unit result" where
  "check_required config [] = Returned ()"
| "check_required config (key # keys) =
     (case py_contains key config of
        Returned present \<Rightarrow>
          if present then check_required config keys
          else Raised (ValueError (missing_key_message key))
      | Raised e \<Rightarrow> Raised e
      | SysExit c \<Rightarrow> SysExit c)"

definition load_settings :: "disk \<Rightarrow> path \<Rightarrow> json result \<times> disk" where
  "load_settings d config_file_path =
     (case files d config_file_path of
        None \<Rightarrow> (Returned DEFAULT_SETTINGS, write_default_config d config_file_path)
      | Some text \<Rightarrow>
          (case json_loads text of
             None \<Rightarrow> (Returned DEFAULT_SETTINGS, write_default_config d config_file_path)
           | Some config \<Rightarrow>
               (case check_required config REQUIRED_KEYS of
                  Returned _ \<Rightarrow> (Returned config, d)
                | Raised e \<Rightarrow> (Raised e, d)
                | SysExit c \<Rightarrow> (SysExit c, d))))"

section \<open>History store\<close>

text \<open>
  \<open>load_history\<close>: the lines are stripped; with a limit that is not zero only the lines
  of \<open>[-limit:]\<close> are kept; the empty ones are dropped and the others parsed.  One line
  that does not parse empties the result.
\<close>

definition read_lines :: "string \<Rightarrow> string list" where
  "read_lines text = map strip (file_lines text)"

definition load_history :: "disk \<Rightarrow> path \<Rightarrow> int option \<Rightarrow> json list" where
  "load_history d history_file_path limit =
     (if missing_or_empty d history_file_path then []
      else
        (let ls = read_lines (case files d history_file_path of None \<Rightarrow> [] | Some text \<Rightarrow> text);
             chosen = (case limit of
                         None \<Rightarrow> ls
                       | Some k \<Rightarrow> if k = 0 then ls else slice_from (- k) ls)
         in case those (map json_loads (filter (\<lambda>line. line \<noteq> []) chosen)) of
              None \<Rightarrow> []
            | Some history \<Rightarrow> history))"

text \<open>
  \<open>write_to_history\<close>: one line at the end of the file behind the handle, flushed.  The
  handle is the path it was opened on, in append mode.
\<close>

definition write_to_history :: "disk \<Rightarrow> path \<Rightarrow> json \<Rightarrow> disk" where
  "write_to_history d file interaction =
     d\<lparr>files := (files d)(file \<mapsto>
        (case files d file of None \<Rightarrow> [] | Some text \<Rightarrow> text) @ json_dumps interaction @ NL)\<rparr>"

section \<open>Completion client\<close>

record client =
  api_key :: json
  base_url :: string

definition initialize_client :: "json \<Rightarrow> client" where
  "initialize_client key = \<lparr>api_key = key, base_url = BASE_URL\<rparr>"

text \<open>
  One call of \<open>client.chat.completions.create\<close>, and the remote service: what the
  \<open>n\<close>-th call of the session gives for a request, the reply's content or an exception
  with its text.
\<close>

record request =
  req_client :: client
  req_model :: json
  req_messages :: "json list"

type_synonym remote = "nat \<Rightarrow> request \<Rightarrow> string + json"

definition generate_request :: "client \<Rightarrow> json \<Rightarrow> string \<Rightarrow> json list \<Rightarrow> request" where
  "generate_request cl model system_message interaction_history =
     \<lparr>req_client = cl, req_model = model,
      req_messages =
        JObject [(''role'', JString ''system''), (''content'', JString system_message)]
        # interaction_history\<rparr>"

section \<open>Session state\<close>

text \<open>
  The variables of \<open>main\<close> that its loop changes, together with the world it acts on:
  the files, what was printed, and the completion calls made so far.
\<close>

record state =
  interaction_history :: "json list"
  fs :: disk
  console :: "printed list"
  requests :: "request list"

text \<open>The variables of \<open>main\<close> that are fixed once the loop starts.\<close>

record session =
  the_client :: client
  model :: json
  system_message :: string
  user_name :: json
  assistant_name :: json
  history_file_path :: path

datatype outcome = Continue state | Exited int state

definition say :: "printed list \<Rightarrow> state \<Rightarrow> state" where
  "say out st = st\<lparr>console := console st @ out\<rparr>"

definition print_response :: "json \<Rightarrow> json \<Rightarrow> printed list" where
  "print_response name assistant_message =
     msg [Lit ''**'', Val name, Lit ''**: '', Val assistant_message] True False None NL NL"

text \<open>\<open>exit_assistant\<close>: a last message, green for status 0 and red otherwise, then
  \<open>sys.exit(status)\<close>.\<close>

definition exit_assistant :: "int \<Rightarrow> fragment list \<Rightarrow> state \<Rightarrow> outcome" where
  "exit_assistant status message st =
     Exited status
       (say (msg message False True (Some (if status = 0 then ''green'' else ''red'')) NL NL) st)"

definition GOODBYE :: "fragment list" where
  "GOODBYE = [Lit ''Goodbye! See you later.'']"

definition print_help_msg :: "json \<Rightarrow> printed list" where
  "print_help_msg name = print_response name (JString HELP_MESSAGE)"

section \<open>History rendering\<close>

text \<open>
  The loop of \<open>print_history\<close> over the entries: \<open>entry.get\<close> is a method of
  \<open>dict\<close>, and an entry that is no \<open>dict\<close> raises after what was printed before it.
\<close>

fun print_entries :: "json \<Rightarrow> json \<Rightarrow> json list \<Rightarrow> printed list \<times> error option" where
  "print_entries uname aname [] = ([], None)"
| "print_entries uname aname (entry # rest) =
     (case entry of
        JObject kvs \<Rightarrow>
          (let role = (case map_of kvs ''role'' of None \<Rightarrow> JString ''unknown'' | Some r \<Rightarrow> r);
               content = (case map_of kvs ''content'' of None \<Rightarrow> JString [] | Some c \<Rightarrow> c);
               line = msg [Lit ''**'', Val (if role = JString ''user'' then uname else aname),
                           Lit ''**: '', Val content] True False None NL NL;
               more = print_entries uname aname rest
           in (line @ fst more, snd more))
      | _ \<Rightarrow> ([], Some AttributeError))"

definition NO_CONVERSATIONS :: "printed list" where
  "NO_CONVERSATIONS =
     msg [Lit ''No conversations found. Start a discussion to create history!'']
       False True (Some ''yellow'') NL (NL @ NL)"

definition heading :: "int option \<Rightarrow> printed list" where
  "heading n =
     (if n = Some 1 then msg [Lit ''## Last message''] True False None NL NL
      else if n = Some 0 \<or> n = None then
        msg [Lit ''## Full conversation history''] True False None NL NL
      else
        msg [Lit (''## Last '' @ (case n of None \<Rightarrow> [] | Some k \<Rightarrow> int_str k) @ '' messages'')]
          True False None NL NL)"

definition RULE :: "printed list" where
  "RULE = msg [Lit ''***''] True False None NL NL"

definition print_history ::
  "json \<Rightarrow> json \<Rightarrow> disk \<Rightarrow> path \<Rightarrow> int option \<Rightarrow> printed list \<times> error option" where
  "print_history uname aname d file n =
     (let history = load_history d file None
      in if history = [] then (NO_CONVERSATIONS, None)
         else
           (let shown = (case n of None \<Rightarrow> history | Some k \<Rightarrow> slice_from (- k) history);
                entries = print_entries uname aname shown
            in case snd entries of
                 None \<Rightarrow> (heading n @ RULE @ fst entries @ RULE, None)
               | Some e \<Rightarrow> (heading n @ RULE @ fst entries, Some e)))"

section \<open>API key provisioning\<close>

text \<open>
  Standard input is the list of the lines that \<open>input()\<close> will return; at its end
  \<open>input()\<close> raises \<open>EOFError\<close>.  \<open>read_nonempty\<close> is the loop
  \<open>while not x: x = input().strip()\<close>.
\<close>

fun read_nonempty :: "string list \<Rightarrow> (string \<times> string list) option" where
  "read_nonempty [] = None"
| "read_nonempty (l # ls) = (if strip l = [] then read_nonempty ls else Some (strip l, ls))"

text \<open>\<open>obj[key] = v\<close> for a string \<open>key\<close>.\<close>

fun py_setitem :: "json \<Rightarrow> string \<Rightarrow> json \<Rightarrow> json result" where
  "py_setitem (JObject kvs) key v = Returned (JObject (dict_set key v kvs))"
| "py_setitem obj key v = Raised TypeError"

text \<open>
  The read-modify-write of the settings file in \<open>request_for_api_key\<close>, inside its
  \<open>try\<close>: \<open>None\<close> when anything in it raises.
\<close>

definition save_api_key :: "disk \<Rightarrow> string \<Rightarrow> disk option" where
  "save_api_key d key =
     (case files d SETTINGS_FILE of
        None \<Rightarrow> None
      | Some text \<Rightarrow>
          if SETTINGS_FILE \<in> write_protected d then None
          else
            (case json_loads text of
               None \<Rightarrow> None
             | Some config \<Rightarrow>
                 (case py_setitem config ''api_key'' (JString key) of
                    Returned config' \<Rightarrow>
                      Some (d\<lparr>files := (files d)(SETTINGS_FILE \<mapsto> json_dumps_indent 4 config')\<rparr>)
                  | _ \<Rightarrow> None)))"

definition ASK_FOR_KEY :: "printed list" where
  "ASK_FOR_KEY =
     msg [Lit (''Your API key is missing in '' @ [CHR 0x27] @ SETTINGS_FILE @ [CHR 0x27]
               @ '' and is not set in the environment as '' @ [CHR 0x27] @ API_KEY_NAME
               @ [CHR 0x27] @ ''!'' @ NL @ ''Would you like to set it now?'')]
       False True (Some ''yellow'') NL '': ''"

text \<open>The result of \<open>request_for_api_key\<close>, the files, the input left and what it printed.\<close>

definition request_for_api_key ::
  "disk \<Rightarrow> string list \<Rightarrow> string result \<times> disk \<times> string list \<times> printed list" where
  "request_for_api_key d ls =
     (case ls of
        [] \<Rightarrow> (Raised EOFError, d, [], ASK_FOR_KEY)
      | l # ls1 \<Rightarrow>
          if List.member CONFIRMATION_COMMANDS (lower (strip l)) then
            (let out2 = ASK_FOR_KEY @ msg [Lit ''Input your API key''] False True (Some ''yellow'') NL '': ''
             in case read_nonempty ls1 of
                  None \<Rightarrow> (Raised EOFError, d, [], out2)
                | Some (key, ls2) \<Rightarrow>
                    (let out3 = out2 @ msg [Lit ''Save API key for future use?''] False True
                                        (Some ''yellow'') NL '': ''
                     in case ls2 of
                          [] \<Rightarrow> (Raised EOFError, d, [], out3)
                        | s # ls3 \<Rightarrow>
                            if List.member CONFIRMATION_COMMANDS (lower (strip s)) then
                              (case save_api_key d key of
                                 Some d' \<Rightarrow>
                                   (Returned key, d', ls3,
                                    out3 @ msg [Lit ''API key saved.''] False True (Some ''green'') NL NL)
                               | None \<Rightarrow>
                                   (Returned key, d, ls3,
                                    out3 @ msg [Lit ''API key not saved. See logs for more info.'']
                                             False True (Some ''red'') NL NL))
                            else
                              (Returned key, d, ls3,
                               out3 @ msg [Lit ''API key not saved.''] False True (Some ''yellow'') NL NL)))
          else
            (SysExit 1, d, ls1,
             ASK_FOR_KEY @ msg [Lit ''Set your API key and try again.''] False True (Some ''red'') NL NL))"

section \<open>The session loop\<close>

definition user_turn :: "string \<Rightarrow> json" where
  "user_turn user_message = JObject [(''role'', JString ''user''), (''content'', JString user_message)]"

definition assistant_turn :: "json \<Rightarrow> json" where
  "assistant_turn assistant_message =
     JObject [(''role'', JString ''assistant''), (''content'', assistant_message)]"

definition SENTINEL :: json where
  "SENTINEL = JObject [(''role'', JString ''assistant''), (''content'', JString ''null'')]"

text \<open>The two handlers around \<open>main\<close>, each leaving through \<open>exit_assistant\<close>.\<close>

definition handler :: "error \<Rightarrow> state \<Rightarrow> outcome" where
  "handler e st =
     (if e = EOFError then exit_assistant 0 [Lit ''Session ended. Goodbye!''] st
      else exit_assistant 1
             [Lit ''Unexpected error: '', Err e, Lit '', see logs for more info.''] st)"

text \<open>The user's turn joins the window and the log before the completion is asked for.\<close>

definition record_user :: "session \<Rightarrow> state \<Rightarrow> string \<Rightarrow> state" where
  "record_user ss st user_message =
     st\<lparr>interaction_history := interaction_history st @ [user_turn user_message],
        fs := write_to_history (fs st) (history_file_path ss) (user_turn user_message)\<rparr>"

text \<open>
  The \<open>try\<close> around \<open>generate_response\<close>: on a reply it is printed, appended, logged and
  the window is cut to its last entries; on an exception the error is printed and the
  sentinel is logged.
\<close>

definition complete :: "remote \<Rightarrow> session \<Rightarrow> state \<Rightarrow> state" where
  "complete service ss st =
     (let req = generate_request (the_client ss) (model ss) (system_message ss)
                  (interaction_history st);
          st1 = st\<lparr>requests := requests st @ [req]\<rparr>
      in case service (length (requests st)) req of
           Inr assistant_message \<Rightarrow>
             (let st2 = say (print_response (assistant_name ss) assistant_message) st1;
                  st3 = st2\<lparr>interaction_history :=
                              interaction_history st2 @ [assistant_turn assistant_message]\<rparr>;
                  st4 = st3\<lparr>fs := write_to_history (fs st3) (history_file_path ss)
                                     (assistant_turn assistant_message)\<rparr>
              in st4\<lparr>interaction_history :=
                       slice_from (- INTERACTION_HISTORY_LIMIT) (interaction_history st4)\<rparr>)
         | Inl err \<Rightarrow>
             (let st2 = say (msg [Lit ''Error generating response: '', Lit err]
                               False True (Some ''red'') NL (NL @ NL)) st1
              in st2\<lparr>fs := write_to_history (fs st2) (history_file_path ss) SENTINEL\<rparr>))"

definition INVALID_ARGUMENT :: "printed list" where
  "INVALID_ARGUMENT =
     msg [Lit ''Invalid argument for history. Please provide a number.'']
       False True (Some ''yellow'') NL NL"

definition show_history :: "session \<Rightarrow> state \<Rightarrow> int option \<Rightarrow> outcome" where
  "show_history ss st n =
     (let shown = print_history (user_name ss) (assistant_name ss) (fs st) (history_file_path ss) n
      in case snd shown of
           None \<Rightarrow> Continue (say (fst shown) st)
         | Some e \<Rightarrow> handler e (say (fst shown) st))"

text \<open>
  One pass through the body of the loop once \<open>user_message\<close> is there: the
  \<open>match\<close> on the tokens of the lowered message, then the message turn.
\<close>

definition turn :: "remote \<Rightarrow> session \<Rightarrow> state \<Rightarrow> string \<Rightarrow> outcome" where
  "turn service ss st user_message =
     (case split (lower user_message) of
        [] \<Rightarrow> handler IndexError st
      | command # args \<Rightarrow>
          if List.member EXIT_COMMANDS command then exit_assistant 0 GOODBYE st
          else if command = ''help'' then Continue (say (print_help_msg (assistant_name ss)) st)
          else if command = ''history'' then
            (case args of
               [] \<Rightarrow> show_history ss st None
             | a # _ \<Rightarrow>
                 (case py_int a of
                    None \<Rightarrow> Continue (say INVALID_ARGUMENT st)
                  | Some n \<Rightarrow> show_history ss st (Some n)))
          else Continue (complete service ss (record_user ss st user_message)))"

text \<open>
  The loop: the prompt, a message from the command line or the next line of input that
  is not blank, the turn, and again with an empty \<open>user_message\<close>.  The end of the input
  ends the session.
\<close>

function run_loop :: "remote \<Rightarrow> session \<Rightarrow> state \<Rightarrow> string \<Rightarrow> string list \<Rightarrow> int \<times> state" where
  "run_loop service ss st user_message ls =
     (let st1 = say (msg [Val (user_name ss)] False True None NL '': '') st
      in case (if user_message = [] then read_nonempty ls else Some (user_message, ls)) of
           None \<Rightarrow> (case handler EOFError st1 of Exited c st' \<Rightarrow> (c, st') | Continue st' \<Rightarrow> (0, st'))
         | Some (m, rest) \<Rightarrow>
             (let st2 = (if user_message = [] then st1
                         else say (msg [Lit m] False False None [] NL) st1);
                  st3 = say (msg [Lit []] False False None NL []) st2
              in case turn service ss st3 m of
                   Exited c st' \<Rightarrow> (c, st')
                 | Continue st' \<Rightarrow> run_loop service ss st' [] rest))"
  by pat_completeness auto
termination
proof -
  have shorter: "length rest < length ls"
    if "read_nonempty ls = Some (m, rest)" for ls :: "string list" and m rest
    using that by (induction ls) (auto split: if_splits)
  show ?thesis
    by (relation "measure (\<lambda>(service, ss, st, user_message, ls).
          2 * length ls + (if user_message = [] then 0 else 1))")
       (auto split: if_splits dest: shorter)
qed

declare run_loop.simps [simp del]

section \<open>main\<close>

text \<open>
  What \<open>main\<close> is started with: the command line, the environment variables and the
  directory of the script.  \<open>str.format\<close> is taken as a parameter: the text of the
  template with the two names filled in, or the exception it raises.
\<close>

record environment =
  argv :: "string list"
  environ :: "string \<rightharpoonup> string"
  script_dir :: path

type_synonym formatter = "string \<Rightarrow> json \<Rightarrow> json \<Rightarrow> string result"

definition bind :: "'a result \<Rightarrow> ('a \<Rightarrow> 'b result) \<Rightarrow> 'b result" where
  "bind r f = (case r of Returned x \<Rightarrow> f x | Raised e \<Rightarrow> Raised e | SysExit c \<Rightarrow> SysExit c)"

text \<open>
  The five reads of \<open>config\<close> and the formatting of the system message; the values are
  \<open>model\<close>, \<open>api_key\<close>, \<open>user_name\<close>, \<open>assistant_name\<close> and \<open>system_message\<close>.
\<close>

definition read_config ::
  "formatter \<Rightarrow> json \<Rightarrow> (json \<times> json \<times> json \<times> json \<times> string) result" where
  "read_config fmt config =
     bind (py_getitem config ''model'') (\<lambda>m.
     bind (py_getitem config ''api_key'') (\<lambda>k.
     bind (py_getitem config ''user_name'') (\<lambda>u.
     bind (py_getitem config ''assistant_name'') (\<lambda>a.
     bind (py_getitem config ''system_message'') (\<lambda>t.
     bind (case t of JString template \<Rightarrow> fmt template a u | _ \<Rightarrow> Raised AttributeError) (\<lambda>s.
     Returned (m, k, u, a, s)))))))"

text \<open>
  \<open>if not config["api_key"]: config["api_key"] = os.environ.get(API_KEY_NAME) or
  request_for_api_key()\<close>: the new \<open>config\<close>, the files, the input left and what was
  printed.
\<close>

definition provide_api_key ::
  "environment \<Rightarrow> json \<Rightarrow> disk \<Rightarrow> string list
     \<Rightarrow> json result \<times> disk \<times> string list \<times> printed list" where
  "provide_api_key env config d ls =
     (case py_getitem config ''api_key'' of
        Raised e \<Rightarrow> (Raised e, d, ls, [])
      | SysExit c \<Rightarrow> (SysExit c, d, ls, [])
      | Returned k \<Rightarrow>
          if truthy k then (Returned config, d, ls, [])
          else
            (case environ env API_KEY_NAME of
               Some v \<Rightarrow>
                 if v \<noteq> [] then (py_setitem config ''api_key'' (JString v), d, ls, [])
                 else
                   (case request_for_api_key d ls of
                      (Returned key, d', ls', out) \<Rightarrow>
                        (py_setitem config ''api_key'' (JString key), d', ls', out)
                    | (Raised e, d', ls', out) \<Rightarrow> (Raised e, d', ls', out)
                    | (SysExit c, d', ls', out) \<Rightarrow> (SysExit c, d', ls', out))
             | None \<Rightarrow>
                 (case request_for_api_key d ls of
                    (Returned key, d', ls', out) \<Rightarrow>
                      (py_setitem config ''api_key'' (JString key), d', ls', out)
                  | (Raised e, d', ls', out) \<Rightarrow> (Raised e, d', ls', out)
                  | (SysExit c, d', ls', out) \<Rightarrow> (SysExit c, d', ls', out))))"

text \<open>
  \<open>main\<close> up to its loop.  \<open>Started\<close> holds the fixed variables, \<open>config\<close> as it is
  then, the state, \<open>user_message\<close> and the input left; \<open>Stopped\<close> is an exit before
  the loop.
\<close>

datatype startup = Started session json state string "string list" | Stopped int state

definition stop :: "outcome \<Rightarrow> startup" where
  "stop out = (case out of Exited c st \<Rightarrow> Stopped c st | Continue st \<Rightarrow> Stopped 0 st)"

definition leave :: "'a result \<Rightarrow> state \<Rightarrow> startup" where
  "leave r st =
     (case r of
        Raised e \<Rightarrow> stop (handler e st)
      | SysExit c \<Rightarrow> Stopped c st
      | Returned _ \<Rightarrow> Stopped 0 st)"

definition prepare :: "formatter \<Rightarrow> environment \<Rightarrow> disk \<Rightarrow> string list \<Rightarrow> startup" where
  "prepare fmt env d ls =
     (let loaded = load_settings d (path_join (script_dir env) SETTINGS_FILE);
          st0 = \<lparr>interaction_history = [], fs = snd loaded, console = [], requests = []\<rparr>
      in case fst loaded of
           Returned config \<Rightarrow>
             (case read_config fmt config of
                Returned (m, k, u, a, s) \<Rightarrow>
                  (case provide_api_key env config (fs st0) ls of
                     (Returned config', d', ls', out) \<Rightarrow>
                       (let cl = initialize_client k;
                            file = path_join (script_dir env) HISTORY_FILE;
                            st1 = st0\<lparr>fs := d', console := out,
                                     interaction_history :=
                                       load_history d' file (Some INTERACTION_HISTORY_LIMIT)\<rparr>
                        in if file \<in> write_protected d' then stop (handler PermissionError st1)
                           else
                             Started
                               \<lparr>the_client = cl, model = m, system_message = s, user_name = u,
                                assistant_name = a, history_file_path = file\<rparr>
                               config'
                               (st1\<lparr>fs := d'\<lparr>files := (files d')(file \<mapsto>
                                   (case files d' file of None \<Rightarrow> [] | Some text \<Rightarrow> text))\<rparr>\<rparr>)
                               (join_space (tl (argv env)))
                               ls')
                   | (r, d', ls', out) \<Rightarrow> leave r (st0\<lparr>fs := d', console := out\<rparr>))
              | r \<Rightarrow> leave r st0)
         | r \<Rightarrow> leave r st0)"

definition main :: "formatter \<Rightarrow> remote \<Rightarrow> environment \<Rightarrow> disk \<Rightarrow> string list \<Rightarrow> int \<times> state" where
  "main fmt service env d ls =
     (case prepare fmt env d ls of
        Stopped c st \<Rightarrow> (c, st)
      | Started ss config st user_message ls' \<Rightarrow> run_loop service ss st user_message ls')"

text \<open>The credential of the client that \<open>main\<close> built, and \<open>config["api_key"]\<close> as it
  is when the loop starts.\<close>

fun client_key :: "startup \<Rightarrow> json option" where
  "client_key (Started ss config st user_message ls) = Some (api_key (the_client ss))"
| "client_key (Stopped c st) = None"

fun settings_key :: "startup \<Rightarrow> json result option" where
  "settings_key (Started ss config st user_message ls) = Some (py_getitem config ''api_key'')"
| "settings_key (Stopped c st) = None"

section \<open>Turns and runs of writes\<close>

text \<open>A turn of the conversation: a role and a content, both strings.\<close>

definition interaction :: "string \<Rightarrow> string \<Rightarrow> json" where
  "interaction role content = JObject [(''role'', JString role), (''content'', JString content)]"

text \<open>\<open>write_to_history\<close> called once for each interaction of a list, in order.\<close>

definition write_all :: "disk \<Rightarrow> path \<Rightarrow> json list \<Rightarrow> disk" where
  "write_all d file ts = foldl (\<lambda>d' t. write_to_history d' file t) d ts"



section \<open>Message turns\<close>

text \<open>
  The lines that reach the message turn of the loop: they have a first token, and it is
  neither an exit command nor \<open>help\<close> nor \<open>history\<close>.
\<close>

definition is_message :: "string \<Rightarrow> bool" where
  "is_message user_message =
     (case split (lower user_message) of
        [] \<Rightarrow> False
      | command # args \<Rightarrow>
          \<not> List.member EXIT_COMMANDS command \<and> command \<noteq> ''help'' \<and> command \<noteq> ''history'')"

text \<open>The request that the message turn sends from a state, and what the service gives.\<close>

definition asked :: "session \<Rightarrow> state \<Rightarrow> string \<Rightarrow> request" where
  "asked ss st user_message =
     generate_request (the_client ss) (model ss) (system_message ss)
       (interaction_history st @ [user_turn user_message])"

definition answer :: "remote \<Rightarrow> session \<Rightarrow> state \<Rightarrow> string \<Rightarrow> string + json" where
  "answer service ss st user_message = service (length (requests st)) (asked ss st user_message)"

text \<open>The text of the history file behind the session's handle.\<close>

definition log_text :: "session \<Rightarrow> state \<Rightarrow> string" where
  "log_text ss st = (case files (fs st) (history_file_path ss) of None \<Rightarrow> [] | Some t \<Rightarrow> t)"

fun state_of :: "outcome \<Rightarrow> state" where
  "state_of (Continue st) = st"
| "state_of (Exited c st) = st"

fun continues :: "outcome \<Rightarrow> bool" where
  "continues (Continue st) = True"
| "continues (Exited c st) = False"

text \<open>What the loop prints before the turn: the prompt, the echo of a message that came
  from the command line, and the empty message.\<close>

definition prompted :: "session \<Rightarrow> bool \<Rightarrow> string \<Rightarrow> state \<Rightarrow> state" where
  "prompted ss echo m st =
     say (msg [Lit []] False False None NL [])
       ((if echo then say (msg [Lit m] False False None [] NL) else id)
          (say (msg [Val (user_name ss)] False True None NL '': '') st))"




section \<open>Example inputs\<close>

text \<open>A history file with an empty line between two turns, and one whose first line is
  cut off.\<close>

definition GAPPED :: string where
  "GAPPED = json_dumps (interaction ''user'' ''hi'') @ NL @ NL
            @ json_dumps (interaction ''assistant'' ''hello'') @ NL"

definition TORN :: string where
  "TORN = ''{'' @ encode_string ''role'' @ NL
          @ json_dumps (interaction ''assistant'' ''hello'') @ NL"

definition CLEAN :: string where
  "CLEAN = json_dumps (interaction ''user'' ''hi'') @ NL
           @ json_dumps (interaction ''assistant'' ''hello'') @ NL"

text \<open>
  A start of the program: no arguments, the key in the environment, the script in
  \<open>/app\<close>, no settings file, and a history of ten turns.  The formatter leaves the
  template as it is; one service always fails, the other always replies \<open>ok\<close>.
\<close>

definition ENV :: environment where
  "ENV = \<lparr>argv = [''electron.py''], environ = [API_KEY_NAME \<mapsto> ''sk-env''], script_dir = ''/app''\<rparr>"

definition EMPTY_DISK :: disk where
  "EMPTY_DISK = \<lparr>files = Map.empty, write_protected = {}\<rparr>"

definition TEN_TURNS :: disk where
  "TEN_TURNS =
     write_all EMPTY_DISK ''/app/history.json''
       (concat (replicate 5 [interaction ''user'' ''hi'', interaction ''assistant'' ''hello'']))"

definition plain_format :: formatter where
  "plain_format template a u = Returned template"

definition failing :: remote where
  "failing n req = Inl ''down''"

definition replying :: remote where
  "replying n req = Inr (JString ''ok'')"

text \<open>A session over that history, at the head of its loop with a window of ten turns.\<close>

definition SS :: session where
  "SS = \<lparr>the_client = initialize_client (JString []), model = JString ''gpt-4o-mini'',
          system_message = ''You are Electron.'', user_name = JString ''User'',
          assistant_name = JString ''Electron'', history_file_path = ''/app/history.json''\<rparr>"

definition FULL :: state where
  "FULL = \<lparr>interaction_history =
             concat (replicate 5 [interaction ''user'' ''hi'', interaction ''assistant'' ''hello'']),
           fs = TEN_TURNS, console = [], requests = []\<rparr>"

section \<open>Tokens of a line\<close>

lemma of_char_lower_char:
  "(of_char (lower_char c) :: nat) =
     (let n = of_char c in if (65 \<le> n \<and> n \<le> 90) \<or> (192 \<le> n \<and> n \<le> 222 \<and> n \<noteq> 215) then n + 32 else n)"
  by (auto simp: lower_char_def Let_def of_char_of)

lemma isspace_lower_char [simp]: "isspace (lower_char c) = isspace c"
  unfolding isspace_def of_char_lower_char by (auto simp: Let_def)

lemma split_from_lower:
  "split_from (map lower_char tok) (map lower_char s) = map (map lower_char) (split_from tok s)"
proof (induction tok s rule: split_from.induct)
  case (1 tok)
  then show ?case by simp
next
  case (2 tok c cs)
  have "map lower_char tok @ [lower_char c] = map lower_char (tok @ [c])" by simp
  with 2 show ?case by (simp del: map_append)
qed

lemma split_lower: "split (lower s) = map lower (split s)"
  using split_from_lower [of "[]" s] by (simp add: split_def lower_def [abs_def])

lemma split_from_dropWhile: "split_from [] (dropWhile isspace s) = split_from [] s"
  by (induction s) auto

lemma split_from_trailing:
  "\<forall>c \<in> set ws. isspace c \<Longrightarrow> split_from tok (s @ ws) = split_from tok s"
proof (induction s arbitrary: tok)
  case Nil
  then show ?case by (induction ws arbitrary: tok) auto
next
  case (Cons c s)
  then show ?case by auto
qed

lemma split_strip: "split (strip s) = split s"
proof -
  let ?t = "dropWhile isspace s"
  have "?t = rev (dropWhile isspace (rev ?t)) @ rev (takeWhile isspace (rev ?t))"
    by (metis rev_append rev_rev_ident takeWhile_dropWhile_id)
  moreover have "\<forall>c \<in> set (rev (takeWhile isspace (rev ?t))). isspace c"
    by (auto dest: set_takeWhileD)
  ultimately have "split_from [] ?t = split_from [] (rev (dropWhile isspace (rev ?t)))"
    by (metis split_from_trailing)
  then show ?thesis
    by (simp add: split_def strip_def split_from_dropWhile)
qed

lemma strip_nonempty: "split s \<noteq> [] \<Longrightarrow> strip s \<noteq> []"
  using split_strip [of s] by (auto simp: split_def)


section \<open>Exit commands\<close>

lemma exit_turn:
  assumes "split user_message = tok # rest" and "lower tok \<in> set EXIT_COMMANDS"
  shows "turn service ss st user_message = exit_assistant 0 GOODBYE st"
proof -
  have "split (lower user_message) = lower tok # map lower rest"
    using assms(1) by (simp add: split_lower)
  then show ?thesis
    using assms(2) by (simp add: turn_def)
qed

lemma requests_say [simp]: "requests (say out st) = requests st"
  by (simp add: say_def)

text \<open>
  Claim C8.  When the first token of the line, split at white space and put in lower
  case, is one of the exit commands, the turn leaves the process with exit code 0 and
  the farewell, and the session (whether the line came from the input or from the
  command line) ends with code 0 without any completion call added.
\<close>

theorem exit_command_terminates:
  assumes "split user_message = tok # rest" and "lower tok \<in> set EXIT_COMMANDS"
  shows "turn service ss st user_message
           = Exited 0 (say (msg GOODBYE False True (Some ''green'') NL NL) st)
         \<and> fst (run_loop service ss st [] (user_message # ls)) = 0
         \<and> requests (snd (run_loop service ss st [] (user_message # ls))) = requests st
         \<and> fst (run_loop service ss st user_message ls) = 0
         \<and> requests (snd (run_loop service ss st user_message ls)) = requests st"
proof -
  have t: "\<And>s. turn service ss s user_message = exit_assistant 0 GOODBYE s"
    using assms by (rule exit_turn)
  have "split (strip user_message) = tok # rest"
    using assms(1) by (simp add: split_strip)
  then have t': "\<And>s. turn service ss s (strip user_message) = exit_assistant 0 GOODBYE s"
    using assms(2) by (rule exit_turn)
  have ne: "strip user_message \<noteq> []" "user_message \<noteq> []"
    using assms(1) strip_nonempty [of user_message] by (auto simp: split_def)
  show ?thesis
    using ne by (simp add: t t' run_loop.simps [of service ss st] exit_assistant_def Let_def)
qed

lemma quit_now_tokens: "split ''Quit now'' = [''Quit'', ''now'']" "lower ''Quit'' \<in> set EXIT_COMMANDS"
  by code_simp+

theorem exit_command_terminates_witness:
  "\<forall>service ss st ls.
     split ''Quit now'' = ''Quit'' # [''now''] \<and> lower ''Quit'' \<in> set EXIT_COMMANDS
     \<and> turn service ss st ''Quit now''
         = Exited 0 (say (msg GOODBYE False True (Some ''green'') NL NL) st)
     \<and> fst (run_loop service ss st [] (''Quit now'' # ls)) = 0
     \<and> requests (snd (run_loop service ss st [] (''Quit now'' # ls))) = requests st"
  using exit_command_terminates [of "''Quit now''" "''Quit''" "[''now'']"] quit_now_tokens
  by simp

section \<open>Settings store: properties\<close>







lemma defaults_parse:
  "json_loads (json_dumps_indent 4 DEFAULT_SETTINGS) = Some DEFAULT_SETTINGS"
  by code_simp

lemma defaults_complete: "check_required DEFAULT_SETTINGS REQUIRED_KEYS = Returned ()"
  by (simp add: DEFAULT_SETTINGS_def REQUIRED_KEYS_def)

text \<open>
  Claim C6, amended.  When the settings file is absent and the path can be written,
  \<open>load_settings\<close> returns the default document (model \<open>gpt-4o-mini\<close>, empty
  \<open>api_key\<close>), the file then holds the defaults, and loading it again returns the
  same document and changes nothing.
\<close>

theorem absent_settings_created:
  assumes "files d p = None" and "p \<notin> write_protected d"
  shows "load_settings d p
           = (Returned DEFAULT_SETTINGS, d\<lparr>files := (files d)(p \<mapsto> json_dumps_indent 4 DEFAULT_SETTINGS)\<rparr>)
         \<and> load_settings (snd (load_settings d p)) p
           = (Returned DEFAULT_SETTINGS, snd (load_settings d p))
         \<and> py_getitem DEFAULT_SETTINGS ''model'' = Returned (JString ''gpt-4o-mini'')
         \<and> py_getitem DEFAULT_SETTINGS ''api_key'' = Returned (JString [])"
proof -
  have a: "load_settings d p
     = (Returned DEFAULT_SETTINGS, d\<lparr>files := (files d)(p \<mapsto> json_dumps_indent 4 DEFAULT_SETTINGS)\<rparr>)"
    using assms by (simp add: load_settings_def write_default_config_def missing_or_empty_def)
  have b: "load_settings (d\<lparr>files := (files d)(p \<mapsto> json_dumps_indent 4 DEFAULT_SETTINGS)\<rparr>) p
     = (Returned DEFAULT_SETTINGS, d\<lparr>files := (files d)(p \<mapsto> json_dumps_indent 4 DEFAULT_SETTINGS)\<rparr>)"
    by (simp add: load_settings_def defaults_parse defaults_complete)
  have c: "py_getitem DEFAULT_SETTINGS ''model'' = Returned (JString ''gpt-4o-mini'')"
     "py_getitem DEFAULT_SETTINGS ''api_key'' = Returned (JString [])"
    by (simp_all add: DEFAULT_SETTINGS_def)
  show ?thesis using a b c by simp
qed

theorem absent_settings_created_witness:
  "files \<lparr>files = Map.empty, write_protected = {}\<rparr> ''settings.json'' = None
   \<and> ''settings.json'' \<notin> write_protected \<lparr>files = Map.empty, write_protected = {}\<rparr>
   \<and> load_settings \<lparr>files = Map.empty, write_protected = {}\<rparr> ''settings.json''
       = (Returned DEFAULT_SETTINGS,
          \<lparr>files = [''settings.json'' \<mapsto> json_dumps_indent 4 DEFAULT_SETTINGS],
            write_protected = {}\<rparr>)
   \<and> load_settings
         \<lparr>files = [''settings.json'' \<mapsto> json_dumps_indent 4 DEFAULT_SETTINGS],
           write_protected = {}\<rparr> ''settings.json''
       = (Returned DEFAULT_SETTINGS,
          \<lparr>files = [''settings.json'' \<mapsto> json_dumps_indent 4 DEFAULT_SETTINGS],
            write_protected = {}\<rparr>)"
proof -
  let ?d = "\<lparr>files = Map.empty, write_protected = {}\<rparr>"
  let ?d' = "\<lparr>files = [''settings.json'' \<mapsto> json_dumps_indent 4 DEFAULT_SETTINGS],
              write_protected = {}\<rparr>"
  have h1: "files ?d ''settings.json'' = None" by simp
  have h2: "''settings.json'' \<notin> write_protected ?d" by simp
  note t = absent_settings_created [OF h1 h2]
  from t have a: "load_settings ?d ''settings.json'' = (Returned DEFAULT_SETTINGS, ?d')"
    by simp
  from t have "load_settings (snd (load_settings ?d ''settings.json'')) ''settings.json''
      = (Returned DEFAULT_SETTINGS, snd (load_settings ?d ''settings.json''))"
    by blast
  then have b: "load_settings ?d' ''settings.json'' = (Returned DEFAULT_SETTINGS, ?d')"
    by (simp only: a snd_conv)
  from h1 h2 a b show ?thesis by blast
qed

text \<open>
  Claim C6 as stated fails where the write fails: the defaults are returned, and no file
  is there afterwards.
\<close>

theorem unwritable_settings_not_created:
  "fst (load_settings \<lparr>files = Map.empty, write_protected = {''settings.json''}\<rparr> ''settings.json'')
     = Returned DEFAULT_SETTINGS
   \<and> files (snd (load_settings \<lparr>files = Map.empty, write_protected = {''settings.json''}\<rparr>
        ''settings.json'')) ''settings.json'' = None"
  by (simp add: load_settings_def write_default_config_def missing_or_empty_def)

section \<open>Characters by their codes\<close>





















section \<open>Lines of the history file\<close>












section \<open>The loop, one turn at a time\<close>

lemma say_fields [simp]:
  "interaction_history (say out st) = interaction_history st"
  "fs (say out st) = fs st"
  "console (say out st) = console st @ out"
  by (simp_all add: say_def)

lemma prompted_fields [simp]:
  "interaction_history (prompted ss echo m st) = interaction_history st"
  "fs (prompted ss echo m st) = fs st"
  "requests (prompted ss echo m st) = requests st"
  by (simp_all add: prompted_def)

lemma log_text_prompted [simp]: "log_text ss (prompted ss echo m st) = log_text ss st"
  by (simp add: log_text_def)

lemma answer_prompted [simp]: "answer service ss (prompted ss echo m' st) m = answer service ss st m"
  by (simp add: answer_def asked_def)




lemma turn_message:
  "is_message m \<Longrightarrow> turn service ss st m = Continue (complete service ss (record_user ss st m))"
  by (auto simp: is_message_def turn_def split: list.splits)

lemma record_user_fields [simp]:
  "interaction_history (record_user ss st m) = interaction_history st @ [user_turn m]"
  "requests (record_user ss st m) = requests st"
  "console (record_user ss st m) = console st"
  "log_text ss (record_user ss st m) = log_text ss st @ json_dumps (user_turn m) @ NL"
  by (simp_all add: record_user_def log_text_def write_to_history_def)

lemma complete_failed:
  assumes "answer service ss st m = Inl err"
  shows "interaction_history (complete service ss (record_user ss st m))
           = interaction_history st @ [user_turn m]"
    and "log_text ss (complete service ss (record_user ss st m))
           = log_text ss st @ json_dumps (user_turn m) @ NL @ json_dumps SENTINEL @ NL"
    and "requests (complete service ss (record_user ss st m)) = requests st @ [asked ss st m]"
  using assms
  by (simp_all add: complete_def answer_def asked_def Let_def log_text_def write_to_history_def
      record_user_def say_def)

lemma complete_replied:
  assumes "answer service ss st m = Inr reply"
  shows "interaction_history (complete service ss (record_user ss st m))
           = slice_from (- INTERACTION_HISTORY_LIMIT)
               (interaction_history st @ [user_turn m, assistant_turn reply])"
    and "log_text ss (complete service ss (record_user ss st m))
           = log_text ss st @ json_dumps (user_turn m) @ NL @ json_dumps (assistant_turn reply) @ NL"
    and "requests (complete service ss (record_user ss st m)) = requests st @ [asked ss st m]"
  using assms
  by (simp_all add: complete_def answer_def asked_def Let_def log_text_def write_to_history_def
      record_user_def say_def)

lemma length_slice_from_limit:
  "length (slice_from (- INTERACTION_HISTORY_LIMIT) xs) \<le> nat INTERACTION_HISTORY_LIMIT"
  by (simp add: slice_from_def INTERACTION_HISTORY_LIMIT_def)

lemma length_those: "those xs = Some ys \<Longrightarrow> length ys = length xs"
  by (induction xs arbitrary: ys) (auto split: option.splits)

lemma length_load_history_limit:
  "length (load_history d file (Some INTERACTION_HISTORY_LIMIT)) \<le> nat INTERACTION_HISTORY_LIMIT"
proof -
  let ?chosen = "slice_from (- INTERACTION_HISTORY_LIMIT)
                   (read_lines (case files d file of None \<Rightarrow> [] | Some text \<Rightarrow> text))"
  let ?kept = "filter (\<lambda>line. line \<noteq> []) ?chosen"
  have "length ?kept \<le> length ?chosen" by simp
  also have "\<dots> \<le> nat INTERACTION_HISTORY_LIMIT" by (rule length_slice_from_limit)
  finally have kept: "length ?kept \<le> nat INTERACTION_HISTORY_LIMIT" .
  have "length (case those (map json_loads ?kept) of None \<Rightarrow> [] | Some history \<Rightarrow> history)
          \<le> nat INTERACTION_HISTORY_LIMIT"
    using kept by (auto split: option.splits dest: length_those)
  then show ?thesis
    by (simp add: load_history_def Let_def INTERACTION_HISTORY_LIMIT_def)
qed

lemma turn_without_request:
  assumes "turn service ss st m = Continue st'" and "requests st' = requests st"
  shows "interaction_history st' = interaction_history st"
proof (cases "is_message m")
  case True
  then have "st' = complete service ss (record_user ss st m)"
    using assms(1) by (simp add: turn_message)
  then have "requests st' = requests st @ [asked ss st m]"
    by (cases "answer service ss st m") (simp_all add: complete_failed complete_replied)
  with assms(2) show ?thesis by simp
next
  case False
  then show ?thesis
    using assms(1)
    by (auto simp: turn_def is_message_def exit_assistant_def handler_def show_history_def Let_def
        split: list.splits if_splits option.splits)
qed


section \<open>Window and log\<close>

text \<open>
  Claim C2, amended.  The window is within the limit after the load at the start and
  after every message turn whose completion succeeds, where it is cut to the last
  entries of the window with the user's and the assistant's turn appended; a turn that
  makes no completion call (help, history) leaves the window as it was.
\<close>

theorem window_bounded_after_success:
  "length (load_history d file (Some INTERACTION_HISTORY_LIMIT)) \<le> nat INTERACTION_HISTORY_LIMIT
   \<and> (is_message m \<and> answer service ss st m = Inr reply \<longrightarrow>
        turn service ss st m = Continue (complete service ss (record_user ss st m))
        \<and> interaction_history (complete service ss (record_user ss st m))
            = slice_from (- INTERACTION_HISTORY_LIMIT)
                (interaction_history st @ [user_turn m, assistant_turn reply])
        \<and> length (interaction_history (complete service ss (record_user ss st m)))
            \<le> nat INTERACTION_HISTORY_LIMIT)
   \<and> (turn service ss st m = Continue st' \<and> requests st' = requests st \<longrightarrow>
        interaction_history st' = interaction_history st)"
proof (intro conjI impI)
  show "length (load_history d file (Some INTERACTION_HISTORY_LIMIT)) \<le> nat INTERACTION_HISTORY_LIMIT"
    by (rule length_load_history_limit)
next
  assume a: "is_message m \<and> answer service ss st m = Inr reply"
  then show "turn service ss st m = Continue (complete service ss (record_user ss st m))"
    by (simp add: turn_message)
  from a show w: "interaction_history (complete service ss (record_user ss st m))
            = slice_from (- INTERACTION_HISTORY_LIMIT)
                (interaction_history st @ [user_turn m, assistant_turn reply])"
    by (simp add: complete_replied)
  show "length (interaction_history (complete service ss (record_user ss st m)))
            \<le> nat INTERACTION_HISTORY_LIMIT"
    unfolding w by (rule length_slice_from_limit)
next
  assume "turn service ss st m = Continue st' \<and> requests st' = requests st"
  then show "interaction_history st' = interaction_history st"
    using turn_without_request by blast
qed

lemma hello_there_is_message: "is_message ''hello there''"
  by code_simp

lemma help_turn: "turn service ss st ''help'' = Continue (say (print_help_msg (assistant_name ss)) st)"
proof -
  have "split (lower ''help'') = [''help'']" by code_simp
  moreover have "\<not> List.member EXIT_COMMANDS ''help''" by code_simp
  ultimately show ?thesis by (simp add: turn_def)
qed

theorem window_bounded_after_success_witness:
  "is_message ''hello there'' \<and> answer replying SS FULL ''hello there'' = Inr (JString ''ok'')
   \<and> length (interaction_history FULL) = 10
   \<and> length (load_history TEN_TURNS ''/app/history.json'' (Some INTERACTION_HISTORY_LIMIT))
        \<le> nat INTERACTION_HISTORY_LIMIT
   \<and> length (interaction_history (complete replying SS (record_user SS FULL ''hello there'')))
        \<le> nat INTERACTION_HISTORY_LIMIT
   \<and> turn replying SS FULL ''help'' = Continue (say (print_help_msg (assistant_name SS)) FULL)
   \<and> interaction_history (say (print_help_msg (assistant_name SS)) FULL) = interaction_history FULL"
proof -
  have a: "answer replying SS FULL ''hello there'' = Inr (JString ''ok'')"
    by (simp add: answer_def replying_def)
  have l: "length (interaction_history FULL) = 10"
    by code_simp
  note t = window_bounded_after_success [of TEN_TURNS "''/app/history.json''" "''hello there''"
      replying SS FULL "JString ''ok''"]
  from t hello_there_is_message a
  have 1: "length (load_history TEN_TURNS ''/app/history.json'' (Some INTERACTION_HISTORY_LIMIT))
        \<le> nat INTERACTION_HISTORY_LIMIT"
    and 2: "length (interaction_history (complete replying SS (record_user SS FULL ''hello there'')))
        \<le> nat INTERACTION_HISTORY_LIMIT"
    by blast+
  have h: "turn replying SS FULL ''help'' = Continue (say (print_help_msg (assistant_name SS)) FULL)"
    by (rule help_turn)
  from window_bounded_after_success [of _ _ "''help''" replying SS FULL _
      "say (print_help_msg (assistant_name SS)) FULL"] h
  have 3: "interaction_history (say (print_help_msg (assistant_name SS)) FULL) = interaction_history FULL"
    by simp
  from hello_there_is_message a l 1 2 h 3 show ?thesis by blast
qed

text \<open>
  Claim C2 as stated fails.  Started on a history of ten turns, a session whose one
  completion fails ends with eleven turns in the window; and where the completion
  succeeds, the request it sent held the system message and eleven turns: the window
  was over the limit when the call was made.
\<close>

theorem window_exceeds_limit:
  "INTERACTION_HISTORY_LIMIT = 10
   \<and> fst (main plain_format failing ENV TEN_TURNS [''hello there'']) = 0
   \<and> length (interaction_history (snd (main plain_format failing ENV TEN_TURNS [''hello there'']))) = 11
   \<and> map (\<lambda>r. length (req_messages r))
        (requests (snd (main plain_format replying ENV TEN_TURNS [''hello there'']))) = [12]"
  by code_simp

section \<open>A failed completion\<close>



lemma failing_answer: "answer failing ss st m = Inl ''down''"
  by (simp add: answer_def failing_def)



lemma sentinel_not_user: "SENTINEL \<noteq> user_turn m"
  by (simp add: SENTINEL_def user_turn_def)

text \<open>
  Claim C9.  After a message turn whose completion raises, the window is the old window
  with the user's turn appended and nothing else, while the history file has gained the
  user's line and the sentinel's line: the sentinel, which is not the user's turn, is in
  the log and was not appended to the window.
\<close>

theorem sentinel_only_in_log:
  assumes "is_message m" and "answer service ss st m = Inl err"
  shows "continues (turn service ss st m)
         \<and> interaction_history (state_of (turn service ss st m))
             = interaction_history st @ [user_turn m]
         \<and> log_text ss (state_of (turn service ss st m))
             = log_text ss st @ json_dumps (user_turn m) @ NL @ json_dumps SENTINEL @ NL
         \<and> SENTINEL \<noteq> user_turn m
         \<and> requests (state_of (turn service ss st m)) = requests st @ [asked ss st m]"
  using assms
  by (simp add: turn_message complete_failed sentinel_not_user)

theorem sentinel_only_in_log_witness:
  "is_message ''hello there'' \<and> answer failing SS FULL ''hello there'' = Inl ''down''
   \<and> interaction_history (state_of (turn failing SS FULL ''hello there''))
       = interaction_history FULL @ [user_turn ''hello there'']
   \<and> log_text SS (state_of (turn failing SS FULL ''hello there''))
       = log_text SS FULL @ json_dumps (user_turn ''hello there'') @ NL @ json_dumps SENTINEL @ NL"
  using sentinel_only_in_log [OF hello_there_is_message failing_answer, of SS FULL]
    hello_there_is_message failing_answer
  by blast

section \<open>Tail of the history\<close>

lemma those_all_parse:
  "\<forall>l \<in> set ls. json_loads l \<noteq> None \<Longrightarrow>
     those (map json_loads ls) = Some (map (\<lambda>l. the (json_loads l)) ls)"
  by (induction ls) auto

lemma filter_nonblank: "\<forall>l \<in> set ls. l \<noteq> [] \<Longrightarrow> filter (\<lambda>line. line \<noteq> []) ls = ls"
  by (induction ls) auto

lemma slice_from_tail:
  "0 < k \<Longrightarrow> slice_from (- k) xs = drop (length xs - nat k) xs"
  by (auto simp: slice_from_def nat_diff_distrib' intro: arg_cong [where f = "\<lambda>n. drop n xs"])

lemma load_history_clean:
  assumes "files d file = Some text"
      and "\<forall>l \<in> set (read_lines text). l \<noteq> [] \<and> json_loads l \<noteq> None"
      and "set chosen \<subseteq> set (read_lines text)"
  shows "(case those (map json_loads (filter (\<lambda>line. line \<noteq> []) chosen)) of
            None \<Rightarrow> [] | Some history \<Rightarrow> history) = map (\<lambda>l. the (json_loads l)) chosen"
proof -
  have "filter (\<lambda>line. line \<noteq> []) chosen = chosen"
    using assms(2,3) by (intro filter_nonblank) auto
  moreover have "those (map json_loads chosen) = Some (map (\<lambda>l. the (json_loads l)) chosen)"
    using assms(2,3) by (intro those_all_parse) auto
  ultimately show ?thesis by simp
qed

text \<open>
  Claim C3, amended.  For a history file in which no line is blank and every line
  parses, and a positive \<open>k\<close>, loading with the limit \<open>k\<close> gives the last \<open>k\<close>
  entries of the full load when there are at least \<open>k\<close>, and all of them when there
  are at most \<open>k\<close>.
\<close>

theorem load_tail_of_clean_file:
  assumes "0 < k"
      and "files d file = Some text"
      and "\<forall>l \<in> set (read_lines text). l \<noteq> [] \<and> json_loads l \<noteq> None"
  shows "(k \<le> int (length (load_history d file None)) \<longrightarrow>
            load_history d file (Some k)
              = drop (length (load_history d file None) - nat k) (load_history d file None))
         \<and> (int (length (load_history d file None)) \<le> k \<longrightarrow>
            load_history d file (Some k) = load_history d file None)"
proof (cases "text = []")
  case True
  then show ?thesis
    using assms(2) by (simp add: load_history_def missing_or_empty_def)
next
  case False
  let ?ls = "read_lines text"
  have present: "\<not> missing_or_empty d file"
    using False assms(2) by (simp add: missing_or_empty_def)
  have all: "load_history d file None = map (\<lambda>l. the (json_loads l)) ?ls"
    using load_history_clean [OF assms(2,3), of ?ls] assms(2)
    by (simp add: load_history_def present)
  have "set (slice_from (- k) ?ls) \<subseteq> set ?ls"
    by (auto simp: slice_from_def dest: in_set_dropD)
  from load_history_clean [OF assms(2,3) this] assms(1,2)
  have "load_history d file (Some k) = map (\<lambda>l. the (json_loads l)) (slice_from (- k) ?ls)"
    by (simp add: load_history_def present)
  also have "\<dots> = drop (length ?ls - nat k) (map (\<lambda>l. the (json_loads l)) ?ls)"
    using assms(1) by (simp add: slice_from_tail drop_map)
  finally have tail: "load_history d file (Some k)
      = drop (length (load_history d file None) - nat k) (load_history d file None)"
    by (simp add: all)
  show ?thesis
    using tail by auto
qed

lemma clean_loads:
  "load_history \<lparr>files = [''history.json'' \<mapsto> CLEAN], write_protected = {}\<rparr> ''history.json'' None
     = [interaction ''user'' ''hi'', interaction ''assistant'' ''hello'']"
  "list_all (\<lambda>l. l \<noteq> [] \<and> json_loads l \<noteq> None) (read_lines CLEAN)"
  by code_simp+

theorem load_tail_of_clean_file_witness:
  "(0 :: int) < 1
   \<and> list_all (\<lambda>l. l \<noteq> [] \<and> json_loads l \<noteq> None) (read_lines CLEAN)
   \<and> load_history \<lparr>files = [''history.json'' \<mapsto> CLEAN], write_protected = {}\<rparr>
        ''history.json'' None
       = [interaction ''user'' ''hi'', interaction ''assistant'' ''hello'']
   \<and> load_history \<lparr>files = [''history.json'' \<mapsto> CLEAN], write_protected = {}\<rparr>
        ''history.json'' (Some 1)
       = [interaction ''assistant'' ''hello'']
   \<and> load_history \<lparr>files = [''history.json'' \<mapsto> CLEAN], write_protected = {}\<rparr>
        ''history.json'' (Some 5)
       = [interaction ''user'' ''hi'', interaction ''assistant'' ''hello'']"
proof -
  let ?d = "\<lparr>files = [''history.json'' \<mapsto> CLEAN], write_protected = {}\<rparr>"
  have f: "files ?d ''history.json'' = Some CLEAN" by simp
  have c: "\<forall>l \<in> set (read_lines CLEAN). l \<noteq> [] \<and> json_loads l \<noteq> None"
    using clean_loads(2) by (simp add: list_all_iff)
  have k1: "(0 :: int) < 1" and k5: "(0 :: int) < 5" by simp_all
  from load_tail_of_clean_file [OF k1 f c]
  have 1: "load_history ?d ''history.json'' (Some 1) = [interaction ''assistant'' ''hello'']"
    by (simp add: clean_loads(1))
  from load_tail_of_clean_file [OF k5 f c]
  have 5: "load_history ?d ''history.json'' (Some 5)
       = [interaction ''user'' ''hi'', interaction ''assistant'' ''hello'']"
    by (simp add: clean_loads(1))
  from k1 clean_loads 1 5 show ?thesis by blast
qed

text \<open>
  Claim C3 as stated fails.  With an empty line between its two turns the file has two
  entries, and the load with limit 2 returns only the last one: the limit counts lines,
  blank ones too.  With a first line that does not parse the full load is empty, and the
  load with limit 1 still returns the last turn.
\<close>

theorem load_tail_counts_lines:
  "load_history \<lparr>files = [''history.json'' \<mapsto> GAPPED], write_protected = {}\<rparr>
        ''history.json'' None
     = [interaction ''user'' ''hi'', interaction ''assistant'' ''hello'']
   \<and> load_history \<lparr>files = [''history.json'' \<mapsto> GAPPED], write_protected = {}\<rparr>
        ''history.json'' (Some 2)
     = [interaction ''assistant'' ''hello'']
   \<and> load_history \<lparr>files = [''history.json'' \<mapsto> TORN], write_protected = {}\<rparr>
        ''history.json'' None
     = []
   \<and> load_history \<lparr>files = [''history.json'' \<mapsto> TORN], write_protected = {}\<rparr>
        ''history.json'' (Some 1)
     = [interaction ''assistant'' ''hello'']"
  by code_simp


section \<open>History with a negative count\<close>










section \<open>The credential of the client\<close>

lemma map_of_dict_set: "map_of (dict_set k v d) k = Some v"
  by (induction d) auto

lemma read_config_api_key:
  "read_config fmt (JObject kvs) = Returned (m, k, u, a, s) \<Longrightarrow> map_of kvs ''api_key'' = Some x
     \<Longrightarrow> k = x"
  by (auto simp: read_config_def bind_def split: option.splits result.splits)

lemma provide_from_environment:
  "map_of kvs ''api_key'' = Some (JString []) \<Longrightarrow> environ env API_KEY_NAME = Some v \<Longrightarrow> v \<noteq> []
     \<Longrightarrow> provide_api_key env (JObject kvs) d ls
           = (Returned (JObject (dict_set ''api_key'' (JString v) kvs)), d, ls, [])"
  by (simp add: provide_api_key_def)

text \<open>
  Claim C1 does not hold of the code.  When the loaded settings have an empty
  \<open>api_key\<close> and the environment variable holds a key, \<open>main\<close> stores that key in
  \<open>config\<close>, and then builds the client from the local variable \<open>api_key\<close> that was
  read before: the client's credential is the empty string, not the environment's key.
\<close>

theorem environment_key_not_passed:
  assumes "fst (load_settings d (path_join (script_dir env) SETTINGS_FILE)) = Returned (JObject kvs)"
      and "map_of kvs ''api_key'' = Some (JString [])"
      and "environ env API_KEY_NAME = Some v" and "v \<noteq> []"
      and "prepare fmt env d ls = Started ss config st user_message ls'"
  shows "api_key (the_client ss) = JString []
         \<and> api_key (the_client ss) \<noteq> JString v
         \<and> py_getitem config ''api_key'' = Returned (JString v)"
proof -
  let ?d1 = "snd (load_settings d (path_join (script_dir env) SETTINGS_FILE))"
  from assms(5) obtain m k u a s where rc: "read_config fmt (JObject kvs) = Returned (m, k, u, a, s)"
    by (auto simp: prepare_def Let_def assms(1) leave_def stop_def handler_def exit_assistant_def
        split: result.splits if_splits)
  have k: "k = JString []"
    using rc assms(2) by (rule read_config_api_key)
  have pv: "provide_api_key env (JObject kvs) ?d1 ls
           = (Returned (JObject (dict_set ''api_key'' (JString v) kvs)), ?d1, ls, [])"
    using assms(2,3,4) by (rule provide_from_environment)
  from assms(5) have "the_client ss = initialize_client k
      \<and> config = JObject (dict_set ''api_key'' (JString v) kvs)"
    by (auto simp: prepare_def Let_def assms(1) rc pv stop_def handler_def exit_assistant_def
        split: if_splits)
  then show ?thesis
    using assms(4) by (simp add: k initialize_client_def map_of_dict_set)
qed

lemma started_example:
  "fst (load_settings EMPTY_DISK (path_join (script_dir ENV) SETTINGS_FILE)) = Returned DEFAULT_SETTINGS"
  "environ ENV API_KEY_NAME = Some ''sk-env''"
  "client_key (prepare plain_format ENV EMPTY_DISK []) \<noteq> None"
  by code_simp+

theorem environment_key_not_passed_witness:
  "fst (load_settings EMPTY_DISK (path_join (script_dir ENV) SETTINGS_FILE)) = Returned DEFAULT_SETTINGS
   \<and> py_getitem DEFAULT_SETTINGS ''api_key'' = Returned (JString [])
   \<and> environ ENV API_KEY_NAME = Some ''sk-env''
   \<and> client_key (prepare plain_format ENV EMPTY_DISK []) = Some (JString [])
   \<and> settings_key (prepare plain_format ENV EMPTY_DISK []) = Some (Returned (JString ''sk-env''))"
proof -
  obtain ss config st um ls' where
    p: "prepare plain_format ENV EMPTY_DISK [] = Started ss config st um ls'"
    using started_example(3) by (cases "prepare plain_format ENV EMPTY_DISK []") auto
  have l: "fst (load_settings EMPTY_DISK (path_join (script_dir ENV) SETTINGS_FILE))
      = Returned (JObject
     [(''model'', JString ''gpt-4o-mini''),
      (''api_key'', JString []),
      (''system_message'', JString
         ''You are {assistant_name}, a command line AI assistant for {user_name} who knows everything.''),
      (''assistant_name'', JString ''Electron''),
      (''user_name'', JString ''User'')])"
    using started_example(1) by (simp add: DEFAULT_SETTINGS_def)
  from environment_key_not_passed [OF l _ started_example(2) _ p]
  have "api_key (the_client ss) = JString []
      \<and> py_getitem config ''api_key'' = Returned (JString ''sk-env'')"
    by simp
  then have "client_key (prepare plain_format ENV EMPTY_DISK []) = Some (JString [])"
    "settings_key (prepare plain_format ENV EMPTY_DISK []) = Some (Returned (JString ''sk-env''))"
    by (simp_all add: p)
  moreover have "py_getitem DEFAULT_SETTINGS ''api_key'' = Returned (JString [])"
    by (simp add: DEFAULT_SETTINGS_def)
  ultimately show ?thesis
    using started_example(1,2) by blast
qed

end
